theory Spec2Isabelle
  imports Complex_Main "HOL-Library.Stream"
begin

section \<open>European option pricing: three engines behind one contract\<close>

text \<open>
  The repository prices European options with three engines, each a Python class with a
  constructor that precomputes constants and a method \<open>calculate_option_price\<close>:
  \<^item> \<open>BlackScholesModel\<close> (core/option_pricing/BlackScholesModel.py), the closed form;
  \<^item> \<open>BinomialTreeModel\<close> (core/option_pricing/BinomialTreeModel.py), the lattice;
  \<^item> \<open>MonteCarloPricing\<close> (core/option_pricing/MonteCarloSimulation.py), the simulation.

  Numbers. The source computes in IEEE double precision. The embedding computes in the
  exact reals (\<^typ>\<open>real\<close>): \<open>np.exp\<close>, \<open>np.log\<close> and \<open>np.sqrt\<close> are \<^const>\<open>exp\<close>,
  \<^const>\<open>ln\<close> and \<^const>\<open>sqrt\<close>. It is faithful where every floating-point operation of
  the source is finite and rounding is ignored; an \<open>inf\<close> or \<open>nan\<close> that numpy would
  produce (a division of numpy scalars by zero, the logarithm of a non-positive number, the
  mean of an empty array) has no counterpart, and the theorems about computed values carry
  the preconditions that keep the source away from them. The theorems about errors and
  about the state of an instance hold for every instance. Where a claim is about the
  double that a computation returns, the exact reals say too little: for the lattice a
  second embedding, over doubles with their overflow and underflow, follows the first.

  Arguments. Python checks nothing statically, so \<open>calculate_option_price\<close> can receive
  any object. \<open>py_value\<close> holds the two members of the enum and some other objects.
\<close>

datatype OPTION_TYPE = CALL_OPTION | PUT_OPTION

datatype py_value = OptionType OPTION_TYPE | PyStr string | PyInt int | PyNone

datatype py_error = ValueError | ZeroDivisionError | IndexError | AttributeError


section \<open>The standard normal distribution function\<close>

text \<open>
  \<open>scipy.stats.norm.cdf\<close> is the distribution function of the standard normal law, the
  law on the reals whose density is proportional to \<open>exp (- t\<^sup>2 / 2)\<close>. The library has
  no integral on the import list, so the primitive of the density that vanishes at \<open>0\<close> is
  written as its power series,
  \<open>\<integral>\<^sub>0\<^sup>x exp (- t\<^sup>2 / 2) dt = x * (\<Sum>n. (- 1/2)^n / (n! * (2n + 1)) * (x\<^sup>2)^n)\<close>,
  and the normalising constant as the mass of the density on the half line, the supremum
  of that primitive (by the Gaussian integral its value is \<open>sqrt (pi / 2)\<close>; no theorem here
  depends on the value). \<open>norm_cdf\<close> is then the one function whose derivative is a
  multiple of \<open>exp (- x\<^sup>2 / 2)\<close> and that tends to \<open>0\<close> at \<open>- \<infinity>\<close> and to \<open>1\<close> at
  \<open>\<infinity>\<close>; see \<open>DERIV_norm_cdf\<close>, \<open>norm_cdf_at_bot\<close> and \<open>norm_cdf_at_top\<close> below.
\<close>

definition gauss_coeff :: "nat \<Rightarrow> real" where
  "gauss_coeff n = (- 1 / 2) ^ n / (fact n * real (2 * n + 1))"

definition gauss_primitive :: "real \<Rightarrow> real" where
  "gauss_primitive x = x * (\<Sum>n. gauss_coeff n * (x ^ 2) ^ n)"

definition gauss_half_mass :: real where
  "gauss_half_mass = (SUP x. gauss_primitive x)"

definition norm_cdf :: "real \<Rightarrow> real" where
  "norm_cdf x = 1 / 2 + gauss_primitive x / (2 * gauss_half_mass)"




section \<open>BlackScholesModel\<close>

text \<open>
  \<open>__init__\<close> stores \<open>S\<close>, \<open>K\<close>, \<open>T = days_to_maturity / 365\<close>, \<open>r\<close>, \<open>sigma\<close> and then
  calls \<open>_compute_d1_d2\<close>, which reads those five fields and stores \<open>d1\<close> and \<open>d2\<close>.
  \<open>bs_fields\<close> is the instance before that call, \<open>BlackScholesModel\<close> the finished one.
\<close>

record bs_fields =
  bs_S :: real
  bs_K :: real
  bs_T :: real
  bs_r :: real
  bs_sigma :: real

record BlackScholesModel = bs_fields +
  bs_d1 :: real
  bs_d2 :: real

definition compute_d1_d2 :: "bs_fields \<Rightarrow> BlackScholesModel" where
  "compute_d1_d2 self =
     (let sqrt_T = sqrt (bs_T self);
          sigma_sqrt_T = bs_sigma self * sqrt_T;
          log_SK = ln (bs_S self / bs_K self);
          d1 = (log_SK + (bs_r self + 0.5 * bs_sigma self ^ 2) * bs_T self) / sigma_sqrt_T;
          d2 = d1 - sigma_sqrt_T
      in bs_fields.extend self \<lparr>bs_d1 = d1, bs_d2 = d2\<rparr>)"

definition BlackScholesModel_init ::
    "real \<Rightarrow> real \<Rightarrow> int \<Rightarrow> real \<Rightarrow> real \<Rightarrow> BlackScholesModel" where
  "BlackScholesModel_init underlying_spot_price strike_price days_to_maturity risk_free_rate sigma =
     compute_d1_d2
       \<lparr>bs_S = underlying_spot_price, bs_K = strike_price,
        bs_T = real_of_int days_to_maturity / 365,
        bs_r = risk_free_rate, bs_sigma = sigma\<rparr>"

text \<open>
  The method assigns no field, so it is a function of the instance and the argument; the
  \<open>raise ValueError\<close> of the last branch is the left summand.
\<close>

definition BlackScholesModel_calculate_option_price ::
    "BlackScholesModel \<Rightarrow> py_value \<Rightarrow> py_error + real" where
  "BlackScholesModel_calculate_option_price self option_type =
     (if option_type = OptionType CALL_OPTION then
        Inr (bs_S self * norm_cdf (bs_d1 self)
             - bs_K self * exp (- bs_r self * bs_T self) * norm_cdf (bs_d2 self))
      else if option_type = OptionType PUT_OPTION then
        Inr (bs_K self * exp (- bs_r self * bs_T self) * norm_cdf (- bs_d2 self)
             - bs_S self * norm_cdf (- bs_d1 self))
      else Inl ValueError)"


section \<open>BinomialTreeModel\<close>

text \<open>
  \<open>__init__\<close> stores the six arguments (\<open>T = days_to_maturity / 365\<close>) and the constants
  \<open>dT\<close>, \<open>u\<close>, \<open>d\<close>, \<open>a\<close>, \<open>p\<close>, \<open>q\<close>, \<open>discount\<close>. \<open>number_of_time_steps\<close> is a
  count, a \<^typ>\<open>nat\<close>. \<open>self.T / self.N\<close> divides a Python float by a Python int and
  raises \<open>ZeroDivisionError\<close> when \<open>N = 0\<close>; the later divisions are between numpy
  scalars and raise nothing.
\<close>

record BinomialTreeModel =
  bt_S :: real
  bt_K :: real
  bt_T :: real
  bt_r :: real
  bt_sigma :: real
  bt_N :: nat
  bt_dT :: real
  bt_u :: real
  bt_d :: real
  bt_a :: real
  bt_p :: real
  bt_q :: real
  bt_discount :: real

definition BinomialTreeModel_init ::
    "real \<Rightarrow> real \<Rightarrow> int \<Rightarrow> real \<Rightarrow> real \<Rightarrow> nat \<Rightarrow> py_error + BinomialTreeModel" where
  "BinomialTreeModel_init underlying_spot_price strike_price days_to_maturity risk_free_rate sigma
       number_of_time_steps =
     (let T = real_of_int days_to_maturity / 365 in
      if number_of_time_steps = 0 then Inl ZeroDivisionError
      else
        let dT = T / real number_of_time_steps;
            u = exp (sigma * sqrt dT);
            d = 1 / u;
            a = exp (risk_free_rate * dT);
            p = (a - d) / (u - d);
            q = 1 - p;
            discount = exp (- risk_free_rate * dT)
        in Inr \<lparr>bt_S = underlying_spot_price, bt_K = strike_price, bt_T = T,
                bt_r = risk_free_rate, bt_sigma = sigma, bt_N = number_of_time_steps,
                bt_dT = dT, bt_u = u, bt_d = d, bt_a = a, bt_p = p, bt_q = q,
                bt_discount = discount\<rparr>)"

text \<open>
  \<open>S_T = self.S * self.u ** (self.N - j) * self.d ** j\<close> for \<open>j = np.arange(self.N + 1)\<close>.
\<close>

definition terminal_prices :: "BinomialTreeModel \<Rightarrow> real list" where
  "terminal_prices self =
     map (\<lambda>j. bt_S self * bt_u self ^ (bt_N self - j) * bt_d self ^ j) [0 ..< bt_N self + 1]"

text \<open>
  One pass of the loop body, \<open>V = self.discount * (self.p * V[:-1] + self.q * V[1:])\<close>:
  \<open>V[:-1]\<close> is the list without its last element, \<open>V[1:]\<close> the list without its first, and
  the arithmetic is elementwise.
\<close>

definition backward_step :: "BinomialTreeModel \<Rightarrow> real list \<Rightarrow> real list" where
  "backward_step self V =
     map2 (\<lambda>v w. bt_discount self * (bt_p self * v + bt_q self * w)) (butlast V) (tl V)"

text \<open>\<open>for _ in range(self.N)\<close>: the body runs \<open>n\<close> times.\<close>

fun backward_induction :: "BinomialTreeModel \<Rightarrow> nat \<Rightarrow> real list \<Rightarrow> real list" where
  "backward_induction self 0 V = V"
| "backward_induction self (Suc n) V = backward_induction self n (backward_step self V)"

text \<open>
  The method after its branch on the option type: terminal prices, payoffs, the loop and
  \<open>return V[0]\<close>, which raises \<open>IndexError\<close> on an empty array.
\<close>

definition lattice_value :: "BinomialTreeModel \<Rightarrow> (real \<Rightarrow> real) \<Rightarrow> py_error + real" where
  "lattice_value self payoff_function =
     (let S_T = terminal_prices self;
          V = map payoff_function S_T;
          V = backward_induction self (bt_N self) V
      in case V of [] \<Rightarrow> Inl IndexError | v # _ \<Rightarrow> Inr v)"

definition BinomialTreeModel_calculate_option_price ::
    "BinomialTreeModel \<Rightarrow> py_value \<Rightarrow> py_error + real" where
  "BinomialTreeModel_calculate_option_price self option_type =
     (if option_type = OptionType CALL_OPTION then
        lattice_value self (\<lambda>S. max (S - bt_K self) 0)
      else if option_type = OptionType PUT_OPTION then
        lattice_value self (\<lambda>S. max (bt_K self - S) 0)
      else Inl ValueError)"


section \<open>MonteCarloPricing\<close>

text \<open>
  The class draws from numpy's process-wide generator. Its state is modelled by what it
  will produce: the stream of standard-normal variates still to come. \<open>standard_normal n\<close>
  hands out the first \<open>n\<close> of them and leaves the rest. \<open>np.random.seed\<close> resets the
  state to one determined by the seed; numpy's seeding and sampling algorithms are not
  part of the repository, so the map from a seed to its stream is a parameter (\<open>seed\<close>)
  of the constructor's model.

  The instance has the six arguments, \<open>discount_factor\<close>, and the attribute \<open>S_T\<close>, which
  does not exist until \<open>simulate_terminal_prices\<close> has run (\<^const>\<open>None\<close>). Path
  simulation and plotting (\<open>simulate_price_paths\<close>, \<open>plot_simulation_results\<close>) take no part
  in pricing and are left out.
\<close>

type_synonym rng = "real stream"

definition standard_normal :: "nat \<Rightarrow> rng \<Rightarrow> real list \<times> rng" where
  "standard_normal n g = (stake n g, sdrop n g)"

record MonteCarloPricing =
  mc_S_0 :: real
  mc_K :: real
  mc_T :: real
  mc_r :: real
  mc_sigma :: real
  mc_N :: nat
  mc_discount_factor :: real
  mc_S_T :: "real list option"

definition MonteCarloPricing_init ::
    "(nat \<Rightarrow> rng) \<Rightarrow> real \<Rightarrow> real \<Rightarrow> int \<Rightarrow> real \<Rightarrow> real \<Rightarrow> nat \<Rightarrow> rng
       \<Rightarrow> MonteCarloPricing \<times> rng" where
  "MonteCarloPricing_init seed underlying_spot_price strike_price days_to_maturity risk_free_rate
       sigma number_of_simulations g =
     (let T = real_of_int days_to_maturity / 365;
          g = seed 20
      in (\<lparr>mc_S_0 = underlying_spot_price, mc_K = strike_price, mc_T = T,
           mc_r = risk_free_rate, mc_sigma = sigma, mc_N = number_of_simulations,
           mc_discount_factor = exp (- risk_free_rate * T), mc_S_T = None\<rparr>, g))"

definition simulate_terminal_prices :: "MonteCarloPricing \<Rightarrow> rng \<Rightarrow> MonteCarloPricing \<times> rng" where
  "simulate_terminal_prices self g =
     (let (Z, g) = standard_normal (mc_N self) g
      in (self\<lparr>mc_S_T :=
                 Some (map (\<lambda>z. mc_S_0 self
                              * exp ((mc_r self - 0.5 * mc_sigma self ^ 2) * mc_T self
                                     + mc_sigma self * sqrt (mc_T self) * z)) Z)\<rparr>, g))"

text \<open>\<open>np.mean\<close> of a one-dimensional array.\<close>

definition np_mean :: "real list \<Rightarrow> real" where
  "np_mean xs = sum_list xs / real (length xs)"

text \<open>
  \<open>calculate_option_price\<close> first makes sure that \<open>S_T\<close> exists (the \<open>try\<close> block), then
  branches on the option type. It returns the price or the error, the instance and the
  generator.
\<close>

definition MonteCarloPricing_calculate_option_price ::
    "MonteCarloPricing \<Rightarrow> py_value \<Rightarrow> rng \<Rightarrow> (py_error + real) \<times> MonteCarloPricing \<times> rng" where
  "MonteCarloPricing_calculate_option_price self option_type g =
     (let (self, g) = (case mc_S_T self of
                         None \<Rightarrow> simulate_terminal_prices self g
                       | Some _ \<Rightarrow> (self, g))
      in case mc_S_T self of
           None \<Rightarrow> (Inl AttributeError, self, g)
         | Some S_T \<Rightarrow>
             if option_type = OptionType CALL_OPTION then
               (Inr (mc_discount_factor self * np_mean (map (\<lambda>s. max (s - mc_K self) 0) S_T)),
                self, g)
             else if option_type = OptionType PUT_OPTION then
               (Inr (mc_discount_factor self * np_mean (map (\<lambda>s. max (mc_K self - s) 0) S_T)),
                self, g)
             else (Inl ValueError, self, g))"


section \<open>The closed-form binomial sum\<close>

text \<open>
  The sum that the backward induction is compared with: the discounted expectation of the
  terminal payoffs under the binomial weights, \<open>payoff_at j\<close> being the payoff at the
  terminal node with \<open>j\<close> down-moves. It is written from the formula, not from the code.
\<close>

definition closed_form_binomial_price :: "real \<Rightarrow> real \<Rightarrow> real \<Rightarrow> nat \<Rightarrow> (nat \<Rightarrow> real) \<Rightarrow> real" where
  "closed_form_binomial_price discount p q N payoff_at =
     discount ^ N * (\<Sum>j\<le>N. real (N choose j) * p ^ (N - j) * q ^ j * payoff_at j)"


section \<open>The lattice in double precision\<close>






















section \<open>Properties of the normal distribution function\<close>

subsection \<open>The primitive of the Gaussian density\<close>

text \<open>
  The series converges everywhere, by comparison with the exponential series, so it may
  be differentiated term by term.
\<close>

lemma gauss_coeff_abs_le: "\<bar>gauss_coeff n\<bar> \<le> inverse (fact n)"
proof -
  have a: "\<bar>gauss_coeff n\<bar> = (1 / 2) ^ n / (fact n * real (2 * n + 1))"
    by (simp add: gauss_coeff_def power_abs abs_mult)
  have b: "(1 / 2 :: real) ^ n \<le> 1"
    by (simp add: power_le_one)
  have c: "(1::real) \<le> real (2 * n + 1)" by simp
  have "(1 / 2) ^ n / (fact n * real (2 * n + 1)) \<le> 1 / (fact n * 1 :: real)"
    by (rule frac_le) (use b c in \<open>auto\<close>)
  then show ?thesis using a by (simp add: inverse_eq_divide)
qed

lemma gauss_coeff_summable: "summable (\<lambda>n. gauss_coeff n * y ^ n)"
proof (rule summable_comparison_test')
  show "summable (\<lambda>n. inverse (fact n) * \<bar>y\<bar> ^ n)"
    by (rule summable_exp)
  show "norm (gauss_coeff n * y ^ n) \<le> inverse (fact n) * \<bar>y\<bar> ^ n" for n
    using gauss_coeff_abs_le [of n]
    by (simp add: abs_mult power_abs mult_right_mono)
qed

lemma DERIV_gauss_series:
  "DERIV (\<lambda>y. \<Sum>n. gauss_coeff n * y ^ n) y :> (\<Sum>n. diffs gauss_coeff n * y ^ n)"
  by (rule termdiffs_strong_converges_everywhere) (rule gauss_coeff_summable)

text \<open>
  With \<open>h y = (\<Sum>n. gauss_coeff n * y ^ n)\<close>: \<open>h y + 2 * y * h' y = exp (- y / 2)\<close>, coefficient
  by coefficient. At \<open>y = x\<^sup>2\<close> the left-hand side is the derivative of \<open>x * h (x\<^sup>2)\<close>.
\<close>

lemma gauss_series_ode:
  "(\<Sum>n. gauss_coeff n * y ^ n) + 2 * y * (\<Sum>n. diffs gauss_coeff n * y ^ n) = exp (- y / 2)"
proof -
  let ?c = gauss_coeff
  have A: "(\<lambda>n. ?c n * y ^ n) sums (\<Sum>n. ?c n * y ^ n)"
    using gauss_coeff_summable by (rule summable_sums)
  have sd: "summable (\<lambda>n. diffs ?c n * y ^ n)"
    by (rule termdiff_converges_all) (rule gauss_coeff_summable)
  have B: "(\<lambda>n. diffs ?c n * y ^ n) sums (\<Sum>n. diffs ?c n * y ^ n)"
    using sd by (rule summable_sums)
  define t where "t n = 2 * (real n * ?c n * y ^ n)" for n
  have "(\<lambda>n. 2 * y * (diffs ?c n * y ^ n)) sums (2 * y * (\<Sum>n. diffs ?c n * y ^ n))"
    using B by (rule sums_mult)
  moreover have "2 * y * (diffs ?c n * y ^ n) = t (Suc n)" for n
    by (simp add: t_def diffs_def)
  ultimately have "(\<lambda>n. t (Suc n)) sums (2 * y * (\<Sum>n. diffs ?c n * y ^ n))"
    by simp
  then have "t sums (2 * y * (\<Sum>n. diffs ?c n * y ^ n) + t 0)"
    by (rule sums_Suc_iff [THEN iffD1])
  moreover have "t 0 = 0" by (simp add: t_def)
  ultimately have C: "t sums (2 * y * (\<Sum>n. diffs ?c n * y ^ n))"
    by simp
  have D: "(\<lambda>n. ?c n * y ^ n + t n) sums ((\<Sum>n. ?c n * y ^ n) + 2 * y * (\<Sum>n. diffs ?c n * y ^ n))"
    using A C by (rule sums_add)
  have E: "?c n * y ^ n + t n = (- y / 2) ^ n /\<^sub>R fact n" for n
  proof -
    have "?c n * y ^ n + t n = (real (2 * n + 1) * ?c n) * y ^ n"
      by (simp add: t_def algebra_simps)
    also have "real (2 * n + 1) * ?c n = (- 1 / 2) ^ n / fact n"
      by (simp add: gauss_coeff_def)
    also have "(- 1 / 2) ^ n / fact n * y ^ n = (- y / 2) ^ n /\<^sub>R fact n"
    proof -
      have "(- y / 2) ^ n = (- 1 / 2) ^ n * y ^ n"
        by (simp add: power_mult_distrib [symmetric])
      then show ?thesis by (simp add: field_simps)
    qed
    finally show ?thesis .
  qed
  have "(\<lambda>n. (- y / 2) ^ n /\<^sub>R fact n) sums ((\<Sum>n. ?c n * y ^ n) + 2 * y * (\<Sum>n. diffs ?c n * y ^ n))"
    using D by (simp only: E)
  moreover have "(\<lambda>n. (- y / 2) ^ n /\<^sub>R fact n) sums exp (- y / 2)"
    by (rule exp_converges)
  ultimately show ?thesis by (rule sums_unique2)
qed

lemma DERIV_gauss_primitive: "DERIV gauss_primitive x :> exp (- (x ^ 2) / 2)"
proof -
  have "DERIV (\<lambda>x. x * (\<Sum>n. gauss_coeff n * (x ^ 2) ^ n)) x
          :> 1 * (\<Sum>n. gauss_coeff n * (x ^ 2) ^ n)
             + x * ((\<Sum>n. diffs gauss_coeff n * (x ^ 2) ^ n) * (2 * x))"
    by (rule DERIV_mult' [OF DERIV_ident] DERIV_chain2 [OF DERIV_gauss_series] derivative_eq_intros refl | simp)+
  moreover have "1 * (\<Sum>n. gauss_coeff n * (x ^ 2) ^ n)
             + x * ((\<Sum>n. diffs gauss_coeff n * (x ^ 2) ^ n) * (2 * x)) = exp (- (x ^ 2) / 2)"
    using gauss_series_ode [of "x ^ 2"] by (simp add: power2_eq_square algebra_simps)
  ultimately show ?thesis
    unfolding gauss_primitive_def [abs_def] by simp
qed

lemma gauss_primitive_odd: "gauss_primitive (- x) = - gauss_primitive x"
  by (simp add: gauss_primitive_def)

lemma gauss_primitive_zero: "gauss_primitive 0 = 0"
  by (simp add: gauss_primitive_def)

lemma gauss_primitive_mono:
  assumes "x \<le> y"
  shows "gauss_primitive x \<le> gauss_primitive y"
proof (rule DERIV_nonneg_imp_nondecreasing [OF assms])
  fix t :: real
  show "\<exists>l. DERIV gauss_primitive t :> l \<and> 0 \<le> l"
    using DERIV_gauss_primitive [of t] exp_ge_zero by blast
qed

lemma gauss_primitive_strict_mono:
  assumes "x < y"
  shows "gauss_primitive x < gauss_primitive y"
proof (rule DERIV_pos_imp_increasing [OF assms])
  fix t :: real
  show "\<exists>l. DERIV gauss_primitive t :> l \<and> 0 < l"
    using DERIV_gauss_primitive [of t] exp_gt_zero by blast
qed

text \<open>
  Beyond \<open>1\<close> the density lies below \<open>exp (- x / 2)\<close>, so the primitive is bounded and its
  distance to the supremum decays exponentially.
\<close>

lemma gauss_tail_step:
  assumes "1 \<le> x" and "x \<le> y"
  shows "gauss_primitive y + 2 * exp (- y / 2) \<le> gauss_primitive x + 2 * exp (- x / 2)"
proof (rule DERIV_nonpos_imp_nonincreasing [OF \<open>x \<le> y\<close>])
  fix t :: real
  assume "x \<le> t" and "t \<le> y"
  then have t1: "1 \<le> t" using assms by simp
  have d: "DERIV (\<lambda>t. gauss_primitive t + 2 * exp (- t / 2)) t
             :> exp (- (t ^ 2) / 2) + 2 * (exp (- t / 2) * (- 1 / 2))"
    by (rule derivative_eq_intros DERIV_gauss_primitive refl | simp)+
  have "t * 1 \<le> t * t" using t1 by (intro mult_left_mono) simp_all
  then have "t \<le> t ^ 2" by (simp add: power2_eq_square)
  then have "exp (- (t ^ 2) / 2) \<le> exp (- t / 2)" by simp
  then have "exp (- (t ^ 2) / 2) + 2 * (exp (- t / 2) * (- 1 / 2)) \<le> 0" by simp
  with d show "\<exists>l. DERIV (\<lambda>t. gauss_primitive t + 2 * exp (- t / 2)) t :> l \<and> l \<le> 0"
    by blast
qed

lemma gauss_primitive_le_tail:
  assumes "1 \<le> x"
  shows "gauss_primitive y \<le> gauss_primitive x + 2 * exp (- x / 2)"
proof (cases "x \<le> y")
  case True
  have "0 \<le> 2 * exp (- y / 2)" by simp
  with gauss_tail_step [OF assms True] show ?thesis by linarith
next
  case False
  then have "gauss_primitive y \<le> gauss_primitive x" by (simp add: gauss_primitive_mono)
  moreover have "0 \<le> 2 * exp (- x / 2)" by simp
  ultimately show ?thesis by linarith
qed

lemma gauss_primitive_bdd: "bdd_above (range gauss_primitive)"
proof (rule bdd_aboveI)
  fix v assume "v \<in> range gauss_primitive"
  then show "v \<le> gauss_primitive 1 + 2 * exp (- 1 / 2)"
    using gauss_primitive_le_tail [of 1] by auto
qed

lemma gauss_primitive_le_half_mass: "gauss_primitive x \<le> gauss_half_mass"
  unfolding gauss_half_mass_def by (rule cSUP_upper) (simp_all add: gauss_primitive_bdd)

lemma gauss_half_mass_pos: "0 < gauss_half_mass"
proof -
  have "gauss_primitive 0 < gauss_primitive 1"
    by (rule gauss_primitive_strict_mono) simp
  also have "\<dots> \<le> gauss_half_mass" by (rule gauss_primitive_le_half_mass)
  finally show ?thesis by (simp add: gauss_primitive_zero)
qed

lemma gauss_half_mass_tail:
  assumes "1 \<le> x"
  shows "gauss_half_mass \<le> gauss_primitive x + 2 * exp (- x / 2)"
  unfolding gauss_half_mass_def
proof (rule cSUP_least)
  show "(UNIV :: real set) \<noteq> {}" by simp
  show "gauss_primitive y \<le> gauss_primitive x + 2 * exp (- x / 2)" for y
    by (rule gauss_primitive_le_tail [OF assms])
qed

subsection \<open>The distribution function\<close>

lemma norm_cdf_minus: "norm_cdf (- x) = 1 - norm_cdf x"
  by (simp add: norm_cdf_def gauss_primitive_odd)

lemma norm_cdf_nonneg: "0 \<le> norm_cdf x"
proof -
  have "- gauss_primitive x \<le> gauss_half_mass"
    using gauss_primitive_le_half_mass [of "- x"] by (simp add: gauss_primitive_odd)
  then have "0 \<le> (gauss_half_mass + gauss_primitive x) / (2 * gauss_half_mass)"
    using gauss_half_mass_pos by simp
  also have "\<dots> = norm_cdf x"
    using gauss_half_mass_pos by (simp add: norm_cdf_def field_simps)
  finally show ?thesis .
qed

lemma norm_cdf_le_one: "norm_cdf x \<le> 1"
  using norm_cdf_nonneg [of "- x"] by (simp add: norm_cdf_minus)

lemma norm_cdf_zero: "norm_cdf 0 = 1 / 2"
  by (simp add: norm_cdf_def gauss_primitive_zero)

lemma norm_cdf_mono:
  assumes "x \<le> y"
  shows "norm_cdf x \<le> norm_cdf y"
proof -
  have "gauss_primitive x / (2 * gauss_half_mass) \<le> gauss_primitive y / (2 * gauss_half_mass)"
    using gauss_primitive_mono [OF assms] gauss_half_mass_pos
    by (intro divide_right_mono) simp_all
  then show ?thesis by (simp add: norm_cdf_def)
qed




lemma norm_cdf_lower_tail:
  assumes "1 \<le> x"
  shows "norm_cdf (- x) \<le> exp (- x / 2) / gauss_half_mass"
proof -
  have "norm_cdf (- x) = (gauss_half_mass - gauss_primitive x) / (2 * gauss_half_mass)"
    using gauss_half_mass_pos by (simp add: norm_cdf_def gauss_primitive_odd field_simps)
  also have "\<dots> \<le> (2 * exp (- x / 2)) / (2 * gauss_half_mass)"
    using gauss_half_mass_tail [OF assms] gauss_half_mass_pos
    by (intro divide_right_mono) simp_all
  also have "\<dots> = exp (- x / 2) / gauss_half_mass" by simp
  finally show ?thesis .
qed






subsection \<open>The distribution function at infinity\<close>

text \<open>
  With \<open>DERIV_norm_cdf\<close> these two limits determine \<open>norm_cdf\<close>: it is the primitive of
  a multiple of \<open>exp (- x\<^sup>2 / 2)\<close> that runs from \<open>0\<close> to \<open>1\<close>.
\<close>

lemma norm_cdf_at_bot: "(norm_cdf \<longlongrightarrow> 0) at_bot"
proof (rule tendsto_sandwich [where f = "\<lambda>x. 0" and h = "\<lambda>x. exp (x / 2) / gauss_half_mass"])
  show "\<forall>\<^sub>F x in at_bot. 0 \<le> norm_cdf x"
    by (simp add: norm_cdf_nonneg)
  show "\<forall>\<^sub>F x in at_bot. norm_cdf x \<le> exp (x / 2) / gauss_half_mass"
    unfolding eventually_at_bot_linorder
  proof (intro exI allI impI)
    fix x :: real
    assume "x \<le> - 1"
    then have "1 \<le> - x" by simp
    from norm_cdf_lower_tail [OF this] show "norm_cdf x \<le> exp (x / 2) / gauss_half_mass"
      by simp
  qed
  show "((\<lambda>x. 0) \<longlongrightarrow> (0::real)) at_bot" by simp
  have "LIM x at_bot. (1 / 2) * x :: real :> at_bot"
    by (rule filterlim_tendsto_pos_mult_at_bot [OF tendsto_const _ filterlim_ident]) simp
  then have "((\<lambda>x. exp ((1 / 2) * x)) \<longlongrightarrow> (0::real)) at_bot"
    by (rule filterlim_compose [OF exp_at_bot])
  from tendsto_divide [OF this tendsto_const [of gauss_half_mass]] gauss_half_mass_pos
  show "((\<lambda>x. exp (x / 2) / gauss_half_mass) \<longlongrightarrow> 0) at_bot"
    by simp
qed

lemma norm_cdf_at_top: "(norm_cdf \<longlongrightarrow> 1) at_top"
proof -
  have "((\<lambda>x. norm_cdf (- x)) \<longlongrightarrow> 0) at_top"
    using norm_cdf_at_bot by (simp add: filterlim_at_bot_mirror)
  then have "((\<lambda>x. 1 - norm_cdf (- x)) \<longlongrightarrow> 1 - 0) at_top"
    by (intro tendsto_diff tendsto_const)
  then show ?thesis
    by (simp add: norm_cdf_minus)
qed


section \<open>Properties of BlackScholesModel\<close>

text \<open>What the constructor stores.\<close>

lemma BlackScholesModel_init_fields:
  "bs_S (BlackScholesModel_init S K days r sigma) = S"
  "bs_K (BlackScholesModel_init S K days r sigma) = K"
  "bs_T (BlackScholesModel_init S K days r sigma) = real_of_int days / 365"
  "bs_r (BlackScholesModel_init S K days r sigma) = r"
  "bs_sigma (BlackScholesModel_init S K days r sigma) = sigma"
  "bs_d1 (BlackScholesModel_init S K days r sigma) =
     (ln (S / K) + (r + 0.5 * sigma ^ 2) * (real_of_int days / 365))
       / (sigma * sqrt (real_of_int days / 365))"
  "bs_d2 (BlackScholesModel_init S K days r sigma) =
     bs_d1 (BlackScholesModel_init S K days r sigma) - sigma * sqrt (real_of_int days / 365)"
  by (simp_all add: BlackScholesModel_init_def compute_d1_d2_def Let_def bs_fields.extend_def)




section \<open>Properties of BinomialTreeModel\<close>

text \<open>The terminal vector and one backward step, by index.\<close>

lemma length_terminal_prices: "length (terminal_prices self) = bt_N self + 1"
  by (simp add: terminal_prices_def)

lemma nth_terminal_prices:
  "j \<le> bt_N self \<Longrightarrow>
     terminal_prices self ! j = bt_S self * bt_u self ^ (bt_N self - j) * bt_d self ^ j"
  unfolding terminal_prices_def by (subst nth_map_upt) simp_all

lemma length_backward_step: "length (backward_step self V) = length V - 1"
  by (simp add: backward_step_def)

lemma nth_backward_step:
  "i + 1 < length V \<Longrightarrow>
     backward_step self V ! i
       = bt_discount self * (bt_p self * V ! i + bt_q self * V ! (i + 1))"
  by (simp add: backward_step_def nth_butlast nth_tl)

lemma backward_induction_funpow:
  "backward_induction self n V = (backward_step self ^^ n) V"
  by (induction n arbitrary: V) (simp_all add: funpow_swap1)

lemma length_backward_induction: "length (backward_induction self n V) = length V - n"
  by (induction n arbitrary: V) (simp_all add: length_backward_step)

text \<open>
  One backward step applied to binomially weighted values gives the weights of the next
  row: Pascal's rule under the sum.
\<close>

lemma pascal_sum:
  fixes p q :: real and g :: "nat \<Rightarrow> real"
  shows "(\<Sum>j\<le>k. real (k choose j) * p ^ (k - j) * q ^ j * (p * g j + q * g (Suc j)))
       = (\<Sum>j\<le>Suc k. real (Suc k choose j) * p ^ (Suc k - j) * q ^ j * g j)"
proof -
  let ?A = "\<Sum>j\<le>k. real (k choose j) * p ^ (Suc k - j) * q ^ j * g j"
  let ?B = "\<Sum>j\<le>k. real (k choose j) * p ^ (k - j) * q ^ Suc j * g (Suc j)"
  have lhs: "(\<Sum>j\<le>k. real (k choose j) * p ^ (k - j) * q ^ j * (p * g j + q * g (Suc j))) = ?A + ?B"
  proof -
    have "(\<Sum>j\<le>k. real (k choose j) * p ^ (k - j) * q ^ j * (p * g j + q * g (Suc j)))
        = (\<Sum>j\<le>k. real (k choose j) * p ^ (Suc k - j) * q ^ j * g j
                 + real (k choose j) * p ^ (k - j) * q ^ Suc j * g (Suc j))"
      by (rule sum.cong) (simp_all add: Suc_diff_le algebra_simps)
    then show ?thesis by (simp add: sum.distrib)
  qed
  have A: "?A = p ^ Suc k * g 0
              + (\<Sum>j\<le>k. real (k choose Suc j) * p ^ (k - j) * q ^ Suc j * g (Suc j))"
  proof -
    have "?A = (\<Sum>j\<le>Suc k. real (k choose j) * p ^ (Suc k - j) * q ^ j * g j)"
      by simp
    also have "\<dots> = p ^ Suc k * g 0
              + (\<Sum>j\<le>k. real (k choose Suc j) * p ^ (k - j) * q ^ Suc j * g (Suc j))"
      by (subst sum.atMost_Suc_shift) simp
    finally show ?thesis .
  qed
  have "(\<Sum>j\<le>Suc k. real (Suc k choose j) * p ^ (Suc k - j) * q ^ j * g j)
      = p ^ Suc k * g 0
        + (\<Sum>j\<le>k. real (Suc k choose Suc j) * p ^ (k - j) * q ^ Suc j * g (Suc j))"
    by (subst sum.atMost_Suc_shift) simp
  also have "(\<Sum>j\<le>k. real (Suc k choose Suc j) * p ^ (k - j) * q ^ Suc j * g (Suc j))
      = ?B + (\<Sum>j\<le>k. real (k choose Suc j) * p ^ (k - j) * q ^ Suc j * g (Suc j))"
    by (simp add: sum.distrib [symmetric] algebra_simps)
  finally show ?thesis using lhs A by simp
qed

text \<open>
  After \<open>k\<close> steps the \<open>i\<close>-th value is the discounted binomial sum of the values
  \<open>i, \<dots>, i + k\<close> of the start vector.
\<close>

lemma nth_backward_induction:
  "i + k < length V \<Longrightarrow>
     backward_induction self k V ! i
       = bt_discount self ^ k
         * (\<Sum>j\<le>k. real (k choose j) * bt_p self ^ (k - j) * bt_q self ^ j * V ! (i + j))"
proof (induction k arbitrary: V)
  case 0
  then show ?case by simp
next
  case (Suc k)
  let ?D = "bt_discount self" and ?p = "bt_p self" and ?q = "bt_q self"
  let ?W = "backward_step self V"
  have len: "i + k < length ?W"
    using Suc.prems by (simp add: length_backward_step)
  have W: "?W ! (i + j) = ?D * (?p * V ! (i + j) + ?q * V ! (i + Suc j))" if "j \<le> k" for j
    using that Suc.prems nth_backward_step [of "i + j" V self] by simp
  have "backward_induction self (Suc k) V ! i = backward_induction self k ?W ! i"
    by simp
  also have "\<dots> = ?D ^ k * (\<Sum>j\<le>k. real (k choose j) * ?p ^ (k - j) * ?q ^ j * ?W ! (i + j))"
    by (rule Suc.IH [OF len])
  also have "(\<Sum>j\<le>k. real (k choose j) * ?p ^ (k - j) * ?q ^ j * ?W ! (i + j))
      = (\<Sum>j\<le>k. ?D * (real (k choose j) * ?p ^ (k - j) * ?q ^ j
                          * (?p * V ! (i + j) + ?q * V ! (i + Suc j))))"
    by (rule sum.cong) (simp_all add: W)
  also have "\<dots> = ?D * (\<Sum>j\<le>k. real (k choose j) * ?p ^ (k - j) * ?q ^ j
                          * (?p * V ! (i + j) + ?q * V ! (i + Suc j)))"
    by (simp only: sum_distrib_left)
  also have "(\<Sum>j\<le>k. real (k choose j) * ?p ^ (k - j) * ?q ^ j
                          * (?p * V ! (i + j) + ?q * V ! (i + Suc j)))
      = (\<Sum>j\<le>Suc k. real (Suc k choose j) * ?p ^ (Suc k - j) * ?q ^ j * V ! (i + j))"
    by (rule pascal_sum [of k ?p ?q "\<lambda>j. V ! (i + j)"])
  finally show ?case by (simp add: mult.assoc)
qed

lemma lattice_value_eq:
  "lattice_value self payoff_function
     = Inr (closed_form_binomial_price (bt_discount self) (bt_p self) (bt_q self) (bt_N self)
             (\<lambda>j. payoff_function (bt_S self * bt_u self ^ (bt_N self - j) * bt_d self ^ j)))"
proof -
  let ?N = "bt_N self"
  let ?V = "map payoff_function (terminal_prices self)"
  let ?R = "backward_induction self ?N ?V"
  have lenV: "length ?V = ?N + 1" by (simp add: length_terminal_prices)
  have "length ?R = 1" by (simp add: length_backward_induction length_terminal_prices)
  then obtain v where R: "?R = [v]"
    by (cases ?R) simp_all
  have "v = ?R ! 0" by (simp add: R)
  also have "\<dots> = bt_discount self ^ ?N
      * (\<Sum>j\<le>?N. real (?N choose j) * bt_p self ^ (?N - j) * bt_q self ^ j * ?V ! (0 + j))"
    by (rule nth_backward_induction) (simp add: length_terminal_prices)
  also have "(\<Sum>j\<le>?N. real (?N choose j) * bt_p self ^ (?N - j) * bt_q self ^ j * ?V ! (0 + j))
      = (\<Sum>j\<le>?N. real (?N choose j) * bt_p self ^ (?N - j) * bt_q self ^ j
           * payoff_function (bt_S self * bt_u self ^ (?N - j) * bt_d self ^ j))"
    by (rule sum.cong) (simp_all add: length_terminal_prices nth_terminal_prices)
  finally have "v = closed_form_binomial_price (bt_discount self) (bt_p self) (bt_q self) ?N
             (\<lambda>j. payoff_function (bt_S self * bt_u self ^ (?N - j) * bt_d self ^ j))"
    by (simp add: closed_form_binomial_price_def)
  then show ?thesis by (simp add: lattice_value_def R)
qed

text \<open>The constructor: it fails exactly for \<open>N = 0\<close>.\<close>

lemma BinomialTreeModel_init_Inr:
  assumes "1 \<le> N"
  shows "BinomialTreeModel_init S K days r sigma N =
     Inr \<lparr>bt_S = S, bt_K = K, bt_T = real_of_int days / 365, bt_r = r, bt_sigma = sigma,
          bt_N = N, bt_dT = real_of_int days / 365 / real N,
          bt_u = exp (sigma * sqrt (real_of_int days / 365 / real N)),
          bt_d = 1 / exp (sigma * sqrt (real_of_int days / 365 / real N)),
          bt_a = exp (r * (real_of_int days / 365 / real N)),
          bt_p = (exp (r * (real_of_int days / 365 / real N))
                   - 1 / exp (sigma * sqrt (real_of_int days / 365 / real N)))
                 / (exp (sigma * sqrt (real_of_int days / 365 / real N))
                   - 1 / exp (sigma * sqrt (real_of_int days / 365 / real N))),
          bt_q = 1 - (exp (r * (real_of_int days / 365 / real N))
                   - 1 / exp (sigma * sqrt (real_of_int days / 365 / real N)))
                 / (exp (sigma * sqrt (real_of_int days / 365 / real N))
                   - 1 / exp (sigma * sqrt (real_of_int days / 365 / real N))),
          bt_discount = exp (- r * (real_of_int days / 365 / real N))\<rparr>"
  using assms by (simp add: BinomialTreeModel_init_def Let_def)

lemma BinomialTreeModel_init_zero:
  "BinomialTreeModel_init S K days r sigma 0 = Inl ZeroDivisionError"
  by (simp add: BinomialTreeModel_init_def)

lemma BinomialTreeModel_init_fields:
  assumes "BinomialTreeModel_init S K days r sigma N = Inr m"
  shows "1 \<le> N" and "bt_S m = S" and "bt_K m = K" and "bt_N m = N"
    and "bt_q m = 1 - bt_p m" and "0 < bt_discount m"
proof -
  show N: "1 \<le> N"
    using assms by (cases "N = 0") (simp_all add: BinomialTreeModel_init_zero)
  from BinomialTreeModel_init_Inr [OF N, of S K days r sigma] assms
  have m: "m = \<lparr>bt_S = S, bt_K = K, bt_T = real_of_int days / 365, bt_r = r, bt_sigma = sigma,
          bt_N = N, bt_dT = real_of_int days / 365 / real N,
          bt_u = exp (sigma * sqrt (real_of_int days / 365 / real N)),
          bt_d = 1 / exp (sigma * sqrt (real_of_int days / 365 / real N)),
          bt_a = exp (r * (real_of_int days / 365 / real N)),
          bt_p = (exp (r * (real_of_int days / 365 / real N))
                   - 1 / exp (sigma * sqrt (real_of_int days / 365 / real N)))
                 / (exp (sigma * sqrt (real_of_int days / 365 / real N))
                   - 1 / exp (sigma * sqrt (real_of_int days / 365 / real N))),
          bt_q = 1 - (exp (r * (real_of_int days / 365 / real N))
                   - 1 / exp (sigma * sqrt (real_of_int days / 365 / real N)))
                 / (exp (sigma * sqrt (real_of_int days / 365 / real N))
                   - 1 / exp (sigma * sqrt (real_of_int days / 365 / real N))),
          bt_discount = exp (- r * (real_of_int days / 365 / real N))\<rparr>"
    by simp
  show "bt_S m = S" and "bt_K m = K" and "bt_N m = N"
    and "bt_q m = 1 - bt_p m" and "0 < bt_discount m"
    by (simp_all add: m)
qed

lemma BinomialTreeModel_calculate_option_price_eq:
  "BinomialTreeModel_calculate_option_price self (OptionType CALL_OPTION)
     = Inr (closed_form_binomial_price (bt_discount self) (bt_p self) (bt_q self) (bt_N self)
            (\<lambda>j. max (bt_S self * bt_u self ^ (bt_N self - j) * bt_d self ^ j - bt_K self) 0))"
  "BinomialTreeModel_calculate_option_price self (OptionType PUT_OPTION)
     = Inr (closed_form_binomial_price (bt_discount self) (bt_p self) (bt_q self) (bt_N self)
            (\<lambda>j. max (bt_K self - bt_S self * bt_u self ^ (bt_N self - j) * bt_d self ^ j) 0))"
  by (simp_all add: BinomialTreeModel_calculate_option_price_def lattice_value_eq)


section \<open>Properties of MonteCarloPricing\<close>

lemma MonteCarloPricing_init_eq:
  "MonteCarloPricing_init seed S K days r sigma M g =
     (\<lparr>mc_S_0 = S, mc_K = K, mc_T = real_of_int days / 365, mc_r = r, mc_sigma = sigma,
       mc_N = M, mc_discount_factor = exp (- r * (real_of_int days / 365)), mc_S_T = None\<rparr>,
      seed 20)"
  by (simp add: MonteCarloPricing_init_def Let_def)

lemma simulate_terminal_prices_eq:
  "simulate_terminal_prices self g =
     (self\<lparr>mc_S_T :=
        Some (map (\<lambda>z. mc_S_0 self
                      * exp ((mc_r self - 0.5 * mc_sigma self ^ 2) * mc_T self
                             + mc_sigma self * sqrt (mc_T self) * z))
               (stake (mc_N self) g))\<rparr>,
      sdrop (mc_N self) g)"
  by (simp add: simulate_terminal_prices_def standard_normal_def)

text \<open>
  The query with terminal prices present, and without: the second reduces to the first on
  the instance and generator that the simulation leaves.
\<close>

lemma price_with_terminals:
  assumes "mc_S_T self = Some xs"
  shows "MonteCarloPricing_calculate_option_price self option_type g =
     (if option_type = OptionType CALL_OPTION then
        Inr (mc_discount_factor self * np_mean (map (\<lambda>s. max (s - mc_K self) 0) xs))
      else if option_type = OptionType PUT_OPTION then
        Inr (mc_discount_factor self * np_mean (map (\<lambda>s. max (mc_K self - s) 0) xs))
      else Inl ValueError, self, g)"
  using assms by (simp add: MonteCarloPricing_calculate_option_price_def)

lemma price_without_terminals:
  assumes "mc_S_T self = None"
  shows "MonteCarloPricing_calculate_option_price self option_type g =
     MonteCarloPricing_calculate_option_price
       (fst (simulate_terminal_prices self g)) option_type (snd (simulate_terminal_prices self g))"
  using assms
  by (simp add: MonteCarloPricing_calculate_option_price_def simulate_terminal_prices_eq)

lemma terminals_after_simulate:
  "mc_S_T (fst (simulate_terminal_prices self g)) \<noteq> None"
  by (simp add: simulate_terminal_prices_eq)


lemma price_query_state:
  "mc_S_T self = Some xs \<Longrightarrow>
     snd (MonteCarloPricing_calculate_option_price self option_type g) = (self, g)"
  "mc_S_T self = None \<Longrightarrow>
     snd (MonteCarloPricing_calculate_option_price self option_type g)
       = simulate_terminal_prices self g"
  by (simp_all add: MonteCarloPricing_calculate_option_price_def simulate_terminal_prices_eq)

section \<open>Signs of the three prices\<close>




section \<open>Properties of the lattice in double precision\<close>

subsection \<open>Rounding\<close>













subsection \<open>The backward induction keeps an infinite first value\<close>



subsection \<open>An instance whose up factor overflows\<close>








section \<open>The claims\<close>

text \<open>
  C1. A \<open>BlackScholesModel\<close> constructed with \<open>S > 0\<close>, \<open>K > 0\<close>, \<open>T > 0\<close>
  (\<open>T = days_to_maturity / 365\<close>) and \<open>sigma > 0\<close> stores
  \<open>d1 = (ln (S / K) + (r + sigma\<^sup>2 / 2) * T) / (sigma * sqrt T)\<close> and
  \<open>d2 = d1 - sigma * sqrt T\<close>, and \<open>calculate_option_price\<close> returns
  \<open>S * \<Phi> d1 - K * exp (- r * T) * \<Phi> d2\<close> for a call and
  \<open>K * exp (- r * T) * \<Phi> (- d2) - S * \<Phi> (- d1)\<close> for a put, reading the stored
  \<open>d1\<close> and \<open>d2\<close>.
\<close>

theorem C1_black_scholes_formula:
  fixes S K r sigma :: real and days :: int
  assumes "0 < S" and "0 < K" and "0 < days" and "0 < sigma"
  defines "T \<equiv> real_of_int days / 365"
  defines "m \<equiv> BlackScholesModel_init S K days r sigma"
  shows "bs_T m = T
       \<and> bs_d1 m = (ln (S / K) + (r + sigma ^ 2 / 2) * T) / (sigma * sqrt T)
       \<and> bs_d2 m = bs_d1 m - sigma * sqrt T
       \<and> BlackScholesModel_calculate_option_price m (OptionType CALL_OPTION)
           = Inr (S * norm_cdf (bs_d1 m) - K * exp (- (r * T)) * norm_cdf (bs_d2 m))
       \<and> BlackScholesModel_calculate_option_price m (OptionType PUT_OPTION)
           = Inr (K * exp (- (r * T)) * norm_cdf (- bs_d2 m) - S * norm_cdf (- bs_d1 m))"
  unfolding m_def T_def
  by (simp add: BlackScholesModel_calculate_option_price_def BlackScholesModel_init_fields)

theorem C1_black_scholes_formula_witness:
  "(0::real) < 100 \<and> (0::int) < 365 \<and> (0::real) < 1
   \<and> bs_d1 (BlackScholesModel_init 100 100 365 0 1) = 1 / 2
   \<and> bs_d2 (BlackScholesModel_init 100 100 365 0 1) = - 1 / 2
   \<and> BlackScholesModel_calculate_option_price (BlackScholesModel_init 100 100 365 0 1)
        (OptionType CALL_OPTION) = Inr (100 * norm_cdf (1 / 2) - 100 * norm_cdf (- 1 / 2))
   \<and> BlackScholesModel_calculate_option_price (BlackScholesModel_init 100 100 365 0 1)
        (OptionType PUT_OPTION) = Inr (100 * norm_cdf (1 / 2) - 100 * norm_cdf (- 1 / 2))"
proof -
  let ?m = "BlackScholesModel_init 100 100 365 0 1"
  have h: "(0::real) < 100" "(0::int) < 365" "(0::real) < 1" by simp_all
  note t = C1_black_scholes_formula [OF h(1) h(1) h(2) h(3), of 0]
  have d1: "bs_d1 ?m = 1 / 2" using t by simp
  have d2: "bs_d2 ?m = - 1 / 2" using t d1 by simp
  have c: "BlackScholesModel_calculate_option_price ?m (OptionType CALL_OPTION)
             = Inr (100 * norm_cdf (1 / 2) - 100 * norm_cdf (- 1 / 2))"
    using t unfolding d1 d2 by simp
  have p: "BlackScholesModel_calculate_option_price ?m (OptionType PUT_OPTION)
             = Inr (100 * norm_cdf (1 / 2) - 100 * norm_cdf (- 1 / 2))"
    using t unfolding d1 d2 by simp
  show ?thesis using h d1 d2 c p by blast
qed

text \<open>
  C2. For a \<open>BinomialTreeModel\<close> with \<open>N \<ge> 1\<close> (and \<open>T > 0\<close>, \<open>sigma > 0\<close>, without which
  \<open>u = d\<close> and \<open>p\<close> is a division by zero) the constructor succeeds and stores
  \<open>u = exp (sigma * sqrt (T / N))\<close>, \<open>d = 1 / u\<close>, \<open>p = (exp (r * T / N) - d) / (u - d)\<close>,
  \<open>q = 1 - p\<close> and \<open>discount = exp (- r * T / N)\<close>. \<open>calculate_option_price\<close> builds the
  \<open>N + 1\<close> terminal prices \<open>S * u ^ (N - j) * d ^ j\<close>, \<open>j = 0..N\<close>, applies the payoff of the
  option type to each, and runs the backward step \<open>N\<close> times; a step turns \<open>n + 1\<close> values
  into \<open>n\<close>, its \<open>i\<close>-th value being \<open>discount * (p * V\<^sub>i + q * V\<^sub>i\<^sub>+\<^sub>1)\<close>. Exactly one value
  remains, and it is the price returned.
\<close>

theorem C2_lattice_algorithm:
  fixes S K r sigma :: real and days :: int and N :: nat
  assumes "1 \<le> N" and "0 < days" and "0 < sigma"
  defines "T \<equiv> real_of_int days / 365"
  defines "u \<equiv> exp (sigma * sqrt (T / real N))"
  defines "d \<equiv> 1 / u"
  defines "p \<equiv> (exp (r * T / real N) - d) / (u - d)"
  defines "q \<equiv> 1 - p"
  defines "discount \<equiv> exp (- (r * T / real N))"
  shows "\<exists>m. BinomialTreeModel_init S K days r sigma N = Inr m
     \<and> bt_u m = u \<and> bt_d m = d \<and> bt_p m = p \<and> bt_q m = q \<and> bt_discount m = discount
     \<and> length (terminal_prices m) = N + 1
     \<and> (\<forall>j\<le>N. terminal_prices m ! j = S * u ^ (N - j) * d ^ j)
     \<and> (\<forall>V n. length V = n + 1 \<longrightarrow>
           length (backward_step m V) = n
         \<and> (\<forall>i<n. backward_step m V ! i = discount * (p * V ! i + q * V ! (i + 1))))
     \<and> (\<exists>price.
           (backward_step m ^^ N) (map (\<lambda>S_T. max (S_T - K) 0) (terminal_prices m)) = [price]
         \<and> BinomialTreeModel_calculate_option_price m (OptionType CALL_OPTION) = Inr price)
     \<and> (\<exists>price.
           (backward_step m ^^ N) (map (\<lambda>S_T. max (K - S_T) 0) (terminal_prices m)) = [price]
         \<and> BinomialTreeModel_calculate_option_price m (OptionType PUT_OPTION) = Inr price)"
proof -
  obtain m where m: "BinomialTreeModel_init S K days r sigma N = Inr m"
    using BinomialTreeModel_init_Inr [OF assms(1)] by blast
  note f = BinomialTreeModel_init_fields [OF m]
  have cs: "bt_u m = u" "bt_d m = d" "bt_p m = p" "bt_q m = q" "bt_discount m = discount"
    using m unfolding BinomialTreeModel_init_Inr [OF assms(1)]
    by (auto simp: u_def d_def p_def q_def discount_def T_def)
  have len: "length (terminal_prices m) = N + 1"
    by (simp add: length_terminal_prices f)
  have tp: "\<forall>j\<le>N. terminal_prices m ! j = S * u ^ (N - j) * d ^ j"
    using nth_terminal_prices [of _ m] by (simp add: f cs)
  have step: "\<forall>V n. length V = n + 1 \<longrightarrow>
           length (backward_step m V) = n
         \<and> (\<forall>i<n. backward_step m V ! i = discount * (p * V ! i + q * V ! (i + 1)))"
    using nth_backward_step [of _ _ m] by (simp add: length_backward_step cs)
  have run: "\<exists>price. (backward_step m ^^ N) (map g (terminal_prices m)) = [price]
                \<and> lattice_value m g = Inr price" for g
  proof -
    let ?R = "backward_induction m (bt_N m) (map g (terminal_prices m))"
    have "length ?R = 1"
      by (simp add: length_backward_induction length_terminal_prices)
    then obtain v where R: "?R = [v]" by (cases ?R) simp_all
    have "(backward_step m ^^ N) (map g (terminal_prices m)) = [v]"
      using R by (simp add: backward_induction_funpow f)
    moreover have "lattice_value m g = Inr v"
      by (simp add: lattice_value_def R)
    ultimately show ?thesis by blast
  qed
  have call: "\<exists>price.
           (backward_step m ^^ N) (map (\<lambda>S_T. max (S_T - K) 0) (terminal_prices m)) = [price]
         \<and> BinomialTreeModel_calculate_option_price m (OptionType CALL_OPTION) = Inr price"
    using run [of "\<lambda>S_T. max (S_T - K) 0"]
    by (simp add: BinomialTreeModel_calculate_option_price_def f)
  have put: "\<exists>price.
           (backward_step m ^^ N) (map (\<lambda>S_T. max (K - S_T) 0) (terminal_prices m)) = [price]
         \<and> BinomialTreeModel_calculate_option_price m (OptionType PUT_OPTION) = Inr price"
    using run [of "\<lambda>S_T. max (K - S_T) 0"]
    by (simp add: BinomialTreeModel_calculate_option_price_def f)
  from m cs len tp step call put show ?thesis by blast
qed

theorem C2_lattice_algorithm_witness:
  "(1::nat) \<le> 2 \<and> (0::int) < 365 \<and> (0::real) < 1
   \<and> (\<exists>m. BinomialTreeModel_init 100 90 365 0 1 2 = Inr m
        \<and> bt_u m = exp (sqrt (1 / 2)) \<and> bt_d m = 1 / exp (sqrt (1 / 2)) \<and> bt_discount m = 1
        \<and> length (terminal_prices m) = 3
        \<and> terminal_prices m ! 1 = 100 * bt_u m ^ 1 * bt_d m ^ 1
        \<and> length (backward_step m [1, 2, 3]) = 2
        \<and> backward_step m [1, 2, 3] ! 0 = bt_discount m * (bt_p m * 1 + bt_q m * 2)
        \<and> (\<exists>price.
              (backward_step m ^^ 2) (map (\<lambda>S_T. max (S_T - 90) 0) (terminal_prices m)) = [price]
            \<and> BinomialTreeModel_calculate_option_price m (OptionType CALL_OPTION) = Inr price)
        \<and> (\<exists>price.
              (backward_step m ^^ 2) (map (\<lambda>S_T. max (90 - S_T) 0) (terminal_prices m)) = [price]
            \<and> BinomialTreeModel_calculate_option_price m (OptionType PUT_OPTION) = Inr price))"
proof -
  have h: "(1::nat) \<le> 2" "(0::int) < 365" "(0::real) < 1" by simp_all
  from C2_lattice_algorithm [OF h, of 100 90 0]
  obtain m where m: "BinomialTreeModel_init 100 90 365 0 1 2 = Inr m"
    and u: "bt_u m = exp (sqrt (1 / 2))" and d: "bt_d m = 1 / exp (sqrt (1 / 2))"
    and disc: "bt_discount m = 1"
    and len: "length (terminal_prices m) = 3"
    and tp: "\<forall>j\<le>2. terminal_prices m ! j = 100 * bt_u m ^ (2 - j) * bt_d m ^ j"
    and step: "\<forall>V n. length V = n + 1 \<longrightarrow>
           length (backward_step m V) = n
         \<and> (\<forall>i<n. backward_step m V ! i = bt_discount m * (bt_p m * V ! i + bt_q m * V ! (i + 1)))"
    and call: "\<exists>price.
           (backward_step m ^^ 2) (map (\<lambda>S_T. max (S_T - 90) 0) (terminal_prices m)) = [price]
         \<and> BinomialTreeModel_calculate_option_price m (OptionType CALL_OPTION) = Inr price"
    and put: "\<exists>price.
           (backward_step m ^^ 2) (map (\<lambda>S_T. max (90 - S_T) 0) (terminal_prices m)) = [price]
         \<and> BinomialTreeModel_calculate_option_price m (OptionType PUT_OPTION) = Inr price"
    by auto
  have t1: "terminal_prices m ! 1 = 100 * bt_u m ^ 1 * bt_d m ^ 1"
    using tp [rule_format, of 1] by simp
  have "length [1, 2, 3 :: real] = 2 + 1" by simp
  from step [rule_format, OF this]
  have s1: "length (backward_step m [1, 2, 3]) = 2"
    and s2: "\<forall>i<2. backward_step m [1, 2, 3] ! i
               = bt_discount m * (bt_p m * [1, 2, 3] ! i + bt_q m * [1, 2, 3] ! (i + 1))"
    by blast+
  have s3: "backward_step m [1, 2, 3] ! 0 = bt_discount m * (bt_p m * 1 + bt_q m * 2)"
    using s2 [rule_format, of 0] by simp
  from h m u d disc len t1 s1 s3 call put show ?thesis by blast
qed

text \<open>
  C3. For a \<open>MonteCarloPricing\<close> instance with \<open>M \<ge> 1\<close> (and \<open>T \<ge> 0\<close>, so that \<open>sqrt T\<close> is a
  number), \<open>simulate_terminal_prices\<close> takes
  \<open>M\<close> draws \<open>Z\<close> from the generator (whatever its state \<open>g\<close> is by then) and stores
  \<open>S_T = S * exp ((r - sigma\<^sup>2 / 2) * T + sigma * sqrt T * Z)\<close>, elementwise; and
  \<open>calculate_option_price\<close>, on the fresh instance as well as after an explicit simulation,
  returns \<open>exp (- r * T)\<close> times the mean over those \<open>M\<close> prices of \<open>max (S_T - K) 0\<close> for a
  call and of \<open>max (K - S_T) 0\<close> for a put.
\<close>

theorem C3_monte_carlo_estimator:
  fixes seed :: "nat \<Rightarrow> rng" and S K r sigma :: real and days :: int and M :: nat
    and g0 g g' :: rng
  assumes "1 \<le> M" and "0 \<le> days"
  defines "T \<equiv> real_of_int days / 365"
  defines "m \<equiv> fst (MonteCarloPricing_init seed S K days r sigma M g0)"
  defines "S_T \<equiv> map (\<lambda>Z. S * exp ((r - sigma ^ 2 / 2) * T + sigma * sqrt T * Z)) (stake M g)"
  shows "simulate_terminal_prices m g = (m\<lparr>mc_S_T := Some S_T\<rparr>, sdrop M g)
       \<and> length S_T = M
       \<and> fst (MonteCarloPricing_calculate_option_price m (OptionType CALL_OPTION) g)
           = Inr (exp (- (r * T)) * ((\<Sum>s\<leftarrow>S_T. max (s - K) 0) / real M))
       \<and> fst (MonteCarloPricing_calculate_option_price m (OptionType PUT_OPTION) g)
           = Inr (exp (- (r * T)) * ((\<Sum>s\<leftarrow>S_T. max (K - s) 0) / real M))
       \<and> fst (MonteCarloPricing_calculate_option_price (fst (simulate_terminal_prices m g))
                (OptionType CALL_OPTION) g')
           = Inr (exp (- (r * T)) * ((\<Sum>s\<leftarrow>S_T. max (s - K) 0) / real M))
       \<and> fst (MonteCarloPricing_calculate_option_price (fst (simulate_terminal_prices m g))
                (OptionType PUT_OPTION) g')
           = Inr (exp (- (r * T)) * ((\<Sum>s\<leftarrow>S_T. max (K - s) 0) / real M))"
proof -
  have sim: "simulate_terminal_prices m g = (m\<lparr>mc_S_T := Some S_T\<rparr>, sdrop M g)"
    by (simp add: simulate_terminal_prices_eq m_def S_T_def T_def MonteCarloPricing_init_eq)
  have len: "length S_T = M" by (simp add: S_T_def)
  have none: "mc_S_T m = None" by (simp add: m_def MonteCarloPricing_init_eq)
  have some: "mc_S_T (m\<lparr>mc_S_T := Some S_T\<rparr>) = Some S_T" by simp
  have flds: "mc_K (m\<lparr>mc_S_T := Some S_T\<rparr>) = K"
    "mc_discount_factor (m\<lparr>mc_S_T := Some S_T\<rparr>) = exp (- (r * T))"
    by (simp_all add: m_def T_def MonteCarloPricing_init_eq)
  have after: "fst (MonteCarloPricing_calculate_option_price (m\<lparr>mc_S_T := Some S_T\<rparr>)
                  (OptionType CALL_OPTION) h)
           = Inr (exp (- (r * T)) * ((\<Sum>s\<leftarrow>S_T. max (s - K) 0) / real M))"
      "fst (MonteCarloPricing_calculate_option_price (m\<lparr>mc_S_T := Some S_T\<rparr>)
                  (OptionType PUT_OPTION) h)
           = Inr (exp (- (r * T)) * ((\<Sum>s\<leftarrow>S_T. max (K - s) 0) / real M))" for h
    by (simp_all add: price_with_terminals [OF some] flds np_mean_def len)
  show ?thesis
    using sim len after
    by (simp add: price_without_terminals [OF none])
qed

theorem C3_monte_carlo_estimator_witness:
  "(1::nat) \<le> 2 \<and> (0::int) \<le> 365
   \<and> simulate_terminal_prices
         (fst (MonteCarloPricing_init (sconst \<circ> real) 100 90 365 (1 / 20) 1 2 (sconst 7))) (sconst 0)
       = ((fst (MonteCarloPricing_init (sconst \<circ> real) 100 90 365 (1 / 20) 1 2 (sconst 7)))
            \<lparr>mc_S_T := Some [100 * exp (- 9 / 20), 100 * exp (- 9 / 20)]\<rparr>, sconst 0)
   \<and> fst (MonteCarloPricing_calculate_option_price
         (fst (MonteCarloPricing_init (sconst \<circ> real) 100 90 365 (1 / 20) 1 2 (sconst 7)))
         (OptionType CALL_OPTION) (sconst 0))
       = Inr (exp (- (1 / 20))
              * ((max (100 * exp (- 9 / 20) - 90) 0 + max (100 * exp (- 9 / 20) - 90) 0) / 2))
   \<and> fst (MonteCarloPricing_calculate_option_price
         (fst (MonteCarloPricing_init (sconst \<circ> real) 100 90 365 (1 / 20) 1 2 (sconst 7)))
         (OptionType PUT_OPTION) (sconst 0))
       = Inr (exp (- (1 / 20))
              * ((max (90 - 100 * exp (- 9 / 20)) 0 + max (90 - 100 * exp (- 9 / 20)) 0) / 2))"
proof -
  have h: "(1::nat) \<le> 2" "(0::int) \<le> 365" by simp_all
  have st: "stake 2 (sconst (0::real)) = [0, 0]" "sdrop 2 (sconst (0::real)) = sconst 0"
    by (simp_all add: numeral_2_eq_2)
  have e: "(1 / 20 - 1 / 2 :: real) = - 9 / 20" by simp
  note t = C3_monte_carlo_estimator [where seed = "sconst \<circ> real" and S = 100 and K = 90
      and r = "1 / 20" and sigma = 1 and ?g0.0 = "sconst 7" and g = "sconst 0" and g' = "sconst 0",
      OF h, unfolded st]
  show ?thesis using h t by (simp add: e)
qed

text \<open>
  C4. Put-call parity: for a \<open>BlackScholesModel\<close> constructed with \<open>S > 0\<close>, \<open>K > 0\<close>,
  \<open>T > 0\<close> and \<open>sigma > 0\<close>, the call price minus the put price is
  \<open>S - K * exp (- r * T)\<close>, in exact real arithmetic.
\<close>

theorem C4_put_call_parity:
  fixes S K r sigma :: real and days :: int
  assumes "0 < S" and "0 < K" and "0 < days" and "0 < sigma"
  defines "T \<equiv> real_of_int days / 365"
  defines "m \<equiv> BlackScholesModel_init S K days r sigma"
  shows "\<exists>call put.
           BlackScholesModel_calculate_option_price m (OptionType CALL_OPTION) = Inr call
         \<and> BlackScholesModel_calculate_option_price m (OptionType PUT_OPTION) = Inr put
         \<and> call - put = S - K * exp (- (r * T))"
proof -
  let ?call = "bs_S m * norm_cdf (bs_d1 m) - bs_K m * exp (- bs_r m * bs_T m) * norm_cdf (bs_d2 m)"
  let ?put = "bs_K m * exp (- bs_r m * bs_T m) * norm_cdf (- bs_d2 m) - bs_S m * norm_cdf (- bs_d1 m)"
  have c: "BlackScholesModel_calculate_option_price m (OptionType CALL_OPTION) = Inr ?call"
    by (simp add: BlackScholesModel_calculate_option_price_def)
  have p: "BlackScholesModel_calculate_option_price m (OptionType PUT_OPTION) = Inr ?put"
    by (simp add: BlackScholesModel_calculate_option_price_def)
  have "?call - ?put = bs_S m - bs_K m * exp (- bs_r m * bs_T m)"
    by (simp add: norm_cdf_minus algebra_simps)
  then have "?call - ?put = S - K * exp (- (r * T))"
    by (simp add: m_def T_def BlackScholesModel_init_fields)
  with c p show ?thesis by blast
qed

theorem C4_put_call_parity_witness:
  "(0::real) < 100 \<and> (0::real) < 90 \<and> (0::int) < 365 \<and> (0::real) < 1 / 5
   \<and> (\<exists>call put.
        BlackScholesModel_calculate_option_price (BlackScholesModel_init 100 90 365 (1 / 20) (1 / 5))
          (OptionType CALL_OPTION) = Inr call
      \<and> BlackScholesModel_calculate_option_price (BlackScholesModel_init 100 90 365 (1 / 20) (1 / 5))
          (OptionType PUT_OPTION) = Inr put
      \<and> call - put = 100 - 90 * exp (- (1 / 20)))"
  using C4_put_call_parity [of 100 90 365 "1 / 5" "1 / 20"] by simp

text \<open>
  C5. In each of the three engines, \<open>calculate_option_price\<close> fails with the invalid
  option type error (\<open>ValueError\<close> in the source) if and only if the argument is neither
  the call nor the put member of the enum; and it fails in no other way, so for the two
  members it returns a price.
\<close>

theorem C5_invalid_option_type:
  "(BlackScholesModel_calculate_option_price bs option_type = Inl ValueError
      \<longleftrightarrow> option_type \<noteq> OptionType CALL_OPTION \<and> option_type \<noteq> OptionType PUT_OPTION)
 \<and> (BinomialTreeModel_calculate_option_price bt option_type = Inl ValueError
      \<longleftrightarrow> option_type \<noteq> OptionType CALL_OPTION \<and> option_type \<noteq> OptionType PUT_OPTION)
 \<and> (fst (MonteCarloPricing_calculate_option_price mc option_type g) = Inl ValueError
      \<longleftrightarrow> option_type \<noteq> OptionType CALL_OPTION \<and> option_type \<noteq> OptionType PUT_OPTION)
 \<and> (isl (BlackScholesModel_calculate_option_price bs option_type)
      \<longleftrightarrow> option_type \<noteq> OptionType CALL_OPTION \<and> option_type \<noteq> OptionType PUT_OPTION)
 \<and> (isl (BinomialTreeModel_calculate_option_price bt option_type)
      \<longleftrightarrow> option_type \<noteq> OptionType CALL_OPTION \<and> option_type \<noteq> OptionType PUT_OPTION)
 \<and> (isl (fst (MonteCarloPricing_calculate_option_price mc option_type g))
      \<longleftrightarrow> option_type \<noteq> OptionType CALL_OPTION \<and> option_type \<noteq> OptionType PUT_OPTION)"
proof -
  have bs: "BlackScholesModel_calculate_option_price bs option_type = Inl ValueError
      \<longleftrightarrow> option_type \<noteq> OptionType CALL_OPTION \<and> option_type \<noteq> OptionType PUT_OPTION"
    "isl (BlackScholesModel_calculate_option_price bs option_type)
      \<longleftrightarrow> option_type \<noteq> OptionType CALL_OPTION \<and> option_type \<noteq> OptionType PUT_OPTION"
    by (simp_all add: BlackScholesModel_calculate_option_price_def)
  have bt: "BinomialTreeModel_calculate_option_price bt option_type = Inl ValueError
      \<longleftrightarrow> option_type \<noteq> OptionType CALL_OPTION \<and> option_type \<noteq> OptionType PUT_OPTION"
    "isl (BinomialTreeModel_calculate_option_price bt option_type)
      \<longleftrightarrow> option_type \<noteq> OptionType CALL_OPTION \<and> option_type \<noteq> OptionType PUT_OPTION"
    by (simp_all add: BinomialTreeModel_calculate_option_price_def lattice_value_eq)
  obtain self' g' xs where run: "MonteCarloPricing_calculate_option_price mc option_type g
      = MonteCarloPricing_calculate_option_price self' option_type g'"
    and some: "mc_S_T self' = Some xs"
  proof (cases "mc_S_T mc")
    case None
    from price_without_terminals [OF None] terminals_after_simulate [of mc g]
    show ?thesis by (auto intro: that)
  next
    case (Some xs)
    then show ?thesis by (auto intro: that)
  qed
  have mc: "fst (MonteCarloPricing_calculate_option_price mc option_type g) = Inl ValueError
      \<longleftrightarrow> option_type \<noteq> OptionType CALL_OPTION \<and> option_type \<noteq> OptionType PUT_OPTION"
    "isl (fst (MonteCarloPricing_calculate_option_price mc option_type g))
      \<longleftrightarrow> option_type \<noteq> OptionType CALL_OPTION \<and> option_type \<noteq> OptionType PUT_OPTION"
    unfolding run price_with_terminals [OF some] by simp_all
  from bs bt mc show ?thesis by blast
qed




text \<open>
  C7. After any call of \<open>calculate_option_price\<close> on a \<open>MonteCarloPricing\<close> instance the
  terminal prices exist. The call creates them (as \<open>simulate_terminal_prices\<close> does) only
  when they did not exist; when they did, it leaves the instance and the generator alone.
  So a later call with the same option type returns the same value whatever the generator
  has become, and a later call with any argument changes neither instance nor generator.
\<close>

theorem C7_terminal_prices_generated_once:
  fixes self :: MonteCarloPricing and option_type later_type :: py_value and g g' :: rng
  defines "first \<equiv> MonteCarloPricing_calculate_option_price self option_type g"
  defines "self1 \<equiv> fst (snd first)"
  shows "mc_S_T self1 \<noteq> None
       \<and> (mc_S_T self = None \<longrightarrow> snd first = simulate_terminal_prices self g)
       \<and> (mc_S_T self \<noteq> None \<longrightarrow> snd first = (self, g))
       \<and> MonteCarloPricing_calculate_option_price self1 option_type g' = (fst first, self1, g')
       \<and> snd (MonteCarloPricing_calculate_option_price self1 later_type g') = (self1, g')"
proof -
  have a: "mc_S_T self = None \<longrightarrow> snd first = simulate_terminal_prices self g"
    and b: "mc_S_T self \<noteq> None \<longrightarrow> snd first = (self, g)"
    by (auto simp: first_def price_query_state)
  obtain xs where xs: "mc_S_T self1 = Some xs"
  proof (cases "mc_S_T self")
    case None
    with a have "self1 = fst (simulate_terminal_prices self g)" by (simp add: self1_def)
    then show ?thesis using that by (simp add: simulate_terminal_prices_eq)
  next
    case (Some ys)
    with b have "self1 = self" by (simp add: self1_def)
    with Some show ?thesis using that by simp
  qed
  have same: "fst first = fst (MonteCarloPricing_calculate_option_price self1 option_type g')"
  proof (cases "mc_S_T self")
    case None
    with a have s1: "self1 = fst (simulate_terminal_prices self g)" by (simp add: self1_def)
    have "fst first = fst (MonteCarloPricing_calculate_option_price self1 option_type
                            (snd (simulate_terminal_prices self g)))"
      unfolding first_def price_without_terminals [OF None] s1 ..
    then show ?thesis by (simp add: price_with_terminals [OF xs])
  next
    case (Some ys)
    with b have "self1 = self" by (simp add: self1_def)
    then show ?thesis using Some by (simp add: first_def price_with_terminals)
  qed
  have c: "MonteCarloPricing_calculate_option_price self1 option_type g' = (fst first, self1, g')"
    using same price_query_state(1) [OF xs, of option_type g']
    by (simp add: prod_eq_iff)
  have d: "snd (MonteCarloPricing_calculate_option_price self1 later_type g') = (self1, g')"
    by (rule price_query_state(1) [OF xs])
  from xs a b c d show ?thesis by simp
qed

theorem C7_terminal_prices_generated_once_witness:
  "mc_S_T (fst (MonteCarloPricing_init (sconst \<circ> real) 100 90 365 (1 / 20) 1 2 (sconst 7))) = None
 \<and> snd (MonteCarloPricing_calculate_option_price
         (fst (MonteCarloPricing_init (sconst \<circ> real) 100 90 365 (1 / 20) 1 2 (sconst 7)))
         (OptionType CALL_OPTION) (sconst 20))
     = simulate_terminal_prices
         (fst (MonteCarloPricing_init (sconst \<circ> real) 100 90 365 (1 / 20) 1 2 (sconst 7)))
         (sconst 20)
 \<and> MonteCarloPricing_calculate_option_price
       (fst (snd (MonteCarloPricing_calculate_option_price
         (fst (MonteCarloPricing_init (sconst \<circ> real) 100 90 365 (1 / 20) 1 2 (sconst 7)))
         (OptionType CALL_OPTION) (sconst 20))))
       (OptionType CALL_OPTION) (sconst 3)
     = (fst (MonteCarloPricing_calculate_option_price
         (fst (MonteCarloPricing_init (sconst \<circ> real) 100 90 365 (1 / 20) 1 2 (sconst 7)))
         (OptionType CALL_OPTION) (sconst 20)),
        fst (snd (MonteCarloPricing_calculate_option_price
         (fst (MonteCarloPricing_init (sconst \<circ> real) 100 90 365 (1 / 20) 1 2 (sconst 7)))
         (OptionType CALL_OPTION) (sconst 20))),
        sconst 3)"
proof -
  let ?m = "fst (MonteCarloPricing_init (sconst \<circ> real) 100 90 365 (1 / 20) 1 2 (sconst 7))"
  have h: "mc_S_T ?m = None" by (simp add: MonteCarloPricing_init_eq)
  note t = C7_terminal_prices_generated_once [of ?m "OptionType CALL_OPTION" "sconst 20" "sconst 3"]
  from t h have "snd (MonteCarloPricing_calculate_option_price ?m (OptionType CALL_OPTION) (sconst 20))
     = simulate_terminal_prices ?m (sconst 20)" by blast
  with t h show ?thesis by blast
qed

text \<open>
  C8. The claim: a query that fails with the invalid option type error leaves the instance
  exactly as it was, so an instance without terminal prices still has none. The method
  creates the terminal prices before it looks at the option type, so this fails: the
  instance below (\<open>M = 2\<close>; a generator whose variates all equal the seed) has none after
  construction and two after the failing call.
\<close>

theorem C8_failed_query_atomic_counterexample:
  "fst (MonteCarloPricing_calculate_option_price
         (fst (MonteCarloPricing_init (sconst \<circ> real) 100 90 365 0 1 2 (sconst 7)))
         PyNone
         (snd (MonteCarloPricing_init (sconst \<circ> real) 100 90 365 0 1 2 (sconst 7))))
     = Inl ValueError
 \<and> mc_S_T (fst (MonteCarloPricing_init (sconst \<circ> real) 100 90 365 0 1 2 (sconst 7))) = None
 \<and> mc_S_T (fst (snd (MonteCarloPricing_calculate_option_price
         (fst (MonteCarloPricing_init (sconst \<circ> real) 100 90 365 0 1 2 (sconst 7)))
         PyNone
         (snd (MonteCarloPricing_init (sconst \<circ> real) 100 90 365 0 1 2 (sconst 7))))))
     = Some [100 * exp (39 / 2), 100 * exp (39 / 2)]"
  by (simp add: MonteCarloPricing_init_eq MonteCarloPricing_calculate_option_price_def
      simulate_terminal_prices_eq numeral_2_eq_2)

text \<open>
  C8, as the code has it. A query with an argument that is neither enum member returns the
  error and no price. If the \<open>MonteCarloPricing\<close> instance had terminal prices, instance
  and generator are as before. If it had none, they are what \<open>simulate_terminal_prices\<close>
  makes of them; in both cases every other field of the instance is as before. (The
  methods of the other two classes assign nothing; their models return the result only.)
\<close>

theorem C8_failed_query_state:
  fixes self :: MonteCarloPricing and option_type :: py_value and g :: rng
  assumes "option_type \<noteq> OptionType CALL_OPTION" and "option_type \<noteq> OptionType PUT_OPTION"
  defines "after \<equiv> snd (MonteCarloPricing_calculate_option_price self option_type g)"
  shows "fst (MonteCarloPricing_calculate_option_price self option_type g) = Inl ValueError
       \<and> (mc_S_T self \<noteq> None \<longrightarrow> after = (self, g))
       \<and> (mc_S_T self = None \<longrightarrow> after = simulate_terminal_prices self g)
       \<and> (fst after)\<lparr>mc_S_T := mc_S_T self\<rparr> = self"
proof -
  have "fst (MonteCarloPricing_calculate_option_price self option_type g) = Inl ValueError"
    using assms(1,2)
    by (cases "mc_S_T self")
      (simp_all add: MonteCarloPricing_calculate_option_price_def simulate_terminal_prices_eq)
  moreover have "(fst after)\<lparr>mc_S_T := mc_S_T self\<rparr> = self"
    by (cases "mc_S_T self")
      (auto simp: after_def price_query_state simulate_terminal_prices_eq)
  ultimately show ?thesis
    by (auto simp: after_def price_query_state)
qed

theorem C8_failed_query_state_witness:
  "PyNone \<noteq> OptionType CALL_OPTION \<and> PyNone \<noteq> OptionType PUT_OPTION
 \<and> mc_S_T (fst (MonteCarloPricing_init (sconst \<circ> real) 100 90 365 0 1 2 (sconst 7))) = None
 \<and> fst (MonteCarloPricing_calculate_option_price
         (fst (MonteCarloPricing_init (sconst \<circ> real) 100 90 365 0 1 2 (sconst 7)))
         PyNone (sconst 0)) = Inl ValueError
 \<and> snd (MonteCarloPricing_calculate_option_price
         (fst (MonteCarloPricing_init (sconst \<circ> real) 100 90 365 0 1 2 (sconst 7)))
         PyNone (sconst 0))
     = simulate_terminal_prices
         (fst (MonteCarloPricing_init (sconst \<circ> real) 100 90 365 0 1 2 (sconst 7))) (sconst 0)"
proof -
  let ?m = "fst (MonteCarloPricing_init (sconst \<circ> real) 100 90 365 0 1 2 (sconst 7))"
  have h: "PyNone \<noteq> OptionType CALL_OPTION" "PyNone \<noteq> OptionType PUT_OPTION" by simp_all
  have n: "mc_S_T ?m = None" by (simp add: MonteCarloPricing_init_eq)
  note t = C8_failed_query_state [OF h, of ?m "sconst 0"]
  from t n have "snd (MonteCarloPricing_calculate_option_price ?m PyNone (sconst 0))
     = simulate_terminal_prices ?m (sconst 0)" by blast
  with t h n show ?thesis by blast
qed

text \<open>
  C9. The constructor seeds the process-wide generator with the seed \<open>20\<close>, whatever its
  state was. So two runs, started from generator states \<open>g\<close> and \<open>g'\<close>, that construct an
  instance from the same arguments and then call \<open>calculate_option_price\<close> with the same
  option type, get the same instance, the same generator state and the same result; the
  terminal prices behind it are computed from the first \<open>M\<close> variates of the seeded stream.
\<close>

theorem C9_seeded_reproducible:
  "snd (MonteCarloPricing_init seed S K days r sigma M g) = seed 20
 \<and> MonteCarloPricing_init seed S K days r sigma M g
     = MonteCarloPricing_init seed S K days r sigma M g'
 \<and> fst (MonteCarloPricing_calculate_option_price
          (fst (MonteCarloPricing_init seed S K days r sigma M g)) option_type
          (snd (MonteCarloPricing_init seed S K days r sigma M g)))
     = fst (MonteCarloPricing_calculate_option_price
          (fst (MonteCarloPricing_init seed S K days r sigma M g')) option_type
          (snd (MonteCarloPricing_init seed S K days r sigma M g')))
 \<and> mc_S_T (fst (snd (MonteCarloPricing_calculate_option_price
          (fst (MonteCarloPricing_init seed S K days r sigma M g)) option_type
          (snd (MonteCarloPricing_init seed S K days r sigma M g)))))
     = Some (map (\<lambda>z. S * exp ((r - 0.5 * sigma ^ 2) * (real_of_int days / 365)
                                 + sigma * sqrt (real_of_int days / 365) * z))
              (stake M (seed 20)))"
proof -
  let ?run = "\<lambda>g. MonteCarloPricing_init seed S K days r sigma M g"
  have same: "?run g = ?run g'" and gen: "snd (?run g) = seed 20"
    and fresh: "mc_S_T (fst (?run g)) = None"
    by (simp_all add: MonteCarloPricing_init_eq)
  have "snd (MonteCarloPricing_calculate_option_price (fst (?run g)) option_type (snd (?run g)))
          = simulate_terminal_prices (fst (?run g)) (seed 20)"
    using price_query_state(2) [OF fresh] by (simp add: gen)
  then have "mc_S_T (fst (snd (MonteCarloPricing_calculate_option_price (fst (?run g))
                                  option_type (snd (?run g)))))
     = Some (map (\<lambda>z. S * exp ((r - 0.5 * sigma ^ 2) * (real_of_int days / 365)
                                 + sigma * sqrt (real_of_int days / 365) * z))
              (stake M (seed 20)))"
    by (simp add: simulate_terminal_prices_eq MonteCarloPricing_init_eq)
  with same gen show ?thesis by simp
qed

text \<open>
  C10. For \<open>N \<ge> 1\<close> (and \<open>T > 0\<close>, \<open>sigma > 0\<close>, so that \<open>u \<noteq> d\<close> and \<open>p\<close> is defined) the price that the backward induction returns is the closed-form
  binomial sum
  \<open>discount ^ N * (\<Sum>j = 0..N. (N choose j) * p ^ (N - j) * q ^ j * payoff (S * u ^ (N - j) * d ^ j))\<close>,
  for a call and for a put, in exact real arithmetic.
\<close>

theorem C10_binomial_closed_form:
  fixes S K r sigma :: real and days :: int and N :: nat
  assumes "1 \<le> N" and "0 < days" and "0 < sigma"
  shows "\<exists>m. BinomialTreeModel_init S K days r sigma N = Inr m
     \<and> BinomialTreeModel_calculate_option_price m (OptionType CALL_OPTION)
         = Inr (bt_discount m ^ N
                * (\<Sum>j = 0..N. real (N choose j) * bt_p m ^ (N - j) * bt_q m ^ j
                                 * max (S * bt_u m ^ (N - j) * bt_d m ^ j - K) 0))
     \<and> BinomialTreeModel_calculate_option_price m (OptionType PUT_OPTION)
         = Inr (bt_discount m ^ N
                * (\<Sum>j = 0..N. real (N choose j) * bt_p m ^ (N - j) * bt_q m ^ j
                                 * max (K - S * bt_u m ^ (N - j) * bt_d m ^ j) 0))"
proof -
  obtain m where m: "BinomialTreeModel_init S K days r sigma N = Inr m"
    using BinomialTreeModel_init_Inr [OF assms(1)] by blast
  note f = BinomialTreeModel_init_fields [OF m]
  show ?thesis
    using m
    by (simp add: BinomialTreeModel_calculate_option_price_eq closed_form_binomial_price_def
        f(2,3,4) atLeast0AtMost)
qed

theorem C10_binomial_closed_form_witness:
  "(1::nat) \<le> 2 \<and> (0::int) < 365 \<and> (0::real) < 1
   \<and> (\<exists>m. BinomialTreeModel_init 100 90 365 0 1 2 = Inr m
     \<and> BinomialTreeModel_calculate_option_price m (OptionType CALL_OPTION)
         = Inr (bt_discount m ^ 2
                * (\<Sum>j = 0..2. real (2 choose j) * bt_p m ^ (2 - j) * bt_q m ^ j
                                 * max (100 * bt_u m ^ (2 - j) * bt_d m ^ j - 90) 0))
     \<and> BinomialTreeModel_calculate_option_price m (OptionType PUT_OPTION)
         = Inr (bt_discount m ^ 2
                * (\<Sum>j = 0..2. real (2 choose j) * bt_p m ^ (2 - j) * bt_q m ^ j
                                 * max (90 - 100 * bt_u m ^ (2 - j) * bt_d m ^ j) 0)))"
proof -
  have h: "(1::nat) \<le> 2" "(0::int) < 365" "(0::real) < 1" by simp_all
  from h C10_binomial_closed_form [OF h, of 100 90 0] show ?thesis by (intro conjI)
qed

end
